theory Spec2Isabelle
  imports Complex_Main "HOL-Library.Word" "HOL-Library.Multiset"
begin

unbundle bit_operations_syntax

section \<open>Constants of the sketch\<close>

text \<open>
  The status colours of \<^verbatim>\<open>FDL-6xTC-Test-Mk1.ino\<close>, lines 55--59, as the packed RGB
  values (\<^verbatim>\<open>uint32_t\<close>) handed to \<^verbatim>\<open>setStatusLED\<close>.
\<close>

definition COLOR_OFF :: "32 word" where
  "COLOR_OFF = 0x000000"

definition COLOR_INIT :: "32 word" where
  "COLOR_INIT = 0x0000FF"

definition COLOR_OK :: "32 word" where
  "COLOR_OK = 0x00FF00"

definition COLOR_WARNING :: "32 word" where
  "COLOR_WARNING = 0xFFFF00"

definition COLOR_ERROR :: "32 word" where
  "COLOR_ERROR = 0xFF0000"

text \<open>
  Modelled from the spec: the header \<^verbatim>\<open>Adafruit_MAX31855.h\<close>, which defines the three
  fault macros tested by \<^verbatim>\<open>readMAX31855\<close>, is not among the sources. The spec
  describes three independently settable flags (open circuit, short to ground, short to
  VCC) and names \<^verbatim>\<open>0b001\<close> as a single-flag bitmask; the three flags are the three low
  bits of the fault code, in that order.
\<close>

definition MAX31855_FAULT_OPEN :: "8 word" where
  "MAX31855_FAULT_OPEN = 0x01"

definition MAX31855_FAULT_SHORT_GND :: "8 word" where
  "MAX31855_FAULT_SHORT_GND = 0x02"

definition MAX31855_FAULT_SHORT_VCC :: "8 word" where
  "MAX31855_FAULT_SHORT_VCC = 0x04"

text \<open>
  Modelled from the spec: the header \<^verbatim>\<open>Adafruit_MAX31856.h\<close>, which defines the eight
  fault macros tested by \<^verbatim>\<open>readMAX31856\<close>, is not among the sources. The spec
  describes eight independently settable flags whose all-set pattern is the maximum
  value \<^verbatim>\<open>0xFF\<close>, and gives \<^verbatim>\<open>0x41\<close> as open circuit together with thermocouple out of
  range (so does the comment at line 315 of the sketch); the eight flags are the eight
  bits of the fault status register.
\<close>

definition MAX31856_FAULT_CJRANGE :: "8 word" where
  "MAX31856_FAULT_CJRANGE = 0x80"

definition MAX31856_FAULT_TCRANGE :: "8 word" where
  "MAX31856_FAULT_TCRANGE = 0x40"

definition MAX31856_FAULT_CJHIGH :: "8 word" where
  "MAX31856_FAULT_CJHIGH = 0x20"

definition MAX31856_FAULT_CJLOW :: "8 word" where
  "MAX31856_FAULT_CJLOW = 0x10"

definition MAX31856_FAULT_TCHIGH :: "8 word" where
  "MAX31856_FAULT_TCHIGH = 0x08"

definition MAX31856_FAULT_TCLOW :: "8 word" where
  "MAX31856_FAULT_TCLOW = 0x04"

definition MAX31856_FAULT_OVUV :: "8 word" where
  "MAX31856_FAULT_OVUV = 0x02"

definition MAX31856_FAULT_OPEN :: "8 word" where
  "MAX31856_FAULT_OPEN = 0x01"

section \<open>The collaborators: sensor drivers, indicator, delays\<close>

text \<open>
  A temperature as the sketch sees it: \<^verbatim>\<open>readCelsius\<close> returns a \<^verbatim>\<open>double\<close> that is either
  NaN or a number. The sketch only tests \<^verbatim>\<open>isnan\<close> and prints the number.
\<close>

datatype temperature = NaN | Num real

fun isnan :: "temperature \<Rightarrow> bool" where
  "isnan NaN = True"
| "isnan (Num _) = False"

text \<open>
  What one MAX31855 driver object answers during one poll: the result of
  \<^verbatim>\<open>readCelsius()\<close> and the result of \<^verbatim>\<open>readError()\<close> (a \<^verbatim>\<open>uint8_t\<close>). These are two
  separate bus transactions, so the model keeps them independent.
\<close>

record MAX31855_answers =
  readCelsius :: temperature
  readError :: "8 word"

text \<open>
  What one MAX31856 driver object answers during one poll: \<^verbatim>\<open>readFault()\<close> (a \<^verbatim>\<open>uint8_t\<close>)
  and \<^verbatim>\<open>readThermocoupleTemperature()\<close>.
\<close>

record MAX31856_answers =
  readFault :: "8 word"
  readThermocoupleTemperature :: temperature

text \<open>
  The calls the sketch makes on its collaborators, in the order they happen. The number
  is the channel (\<^verbatim>\<open>tc0\<close> .. \<^verbatim>\<open>tc5\<close>). Text written to \<^verbatim>\<open>Serial\<close> is not recorded: it
  never influences a branch of the sketch. Neither are \<^verbatim>\<open>Serial.begin\<close>, \<^verbatim>\<open>led.begin\<close> and
  \<^verbatim>\<open>led.setBrightness\<close>; \<^verbatim>\<open>led.setPixelColor\<close> followed by \<^verbatim>\<open>led.show\<close> is one
  \<open>SetPixelColor\<close>.
\<close>

datatype call =
    Begin nat
  | SetThermocoupleType nat
  | SetConversionMode nat
  | ReadCelsius nat
  | ReadError nat
  | ReadFault nat
  | ReadThermocoupleTemperature nat
  | SetPixelColor "32 word"
  | Delay nat

text \<open>
  Everything the environment answers during one step of the program: whether \<^verbatim>\<open>Serial\<close>
  is up, what each \<^verbatim>\<open>begin()\<close> returns, and what each sensor answers when polled.
\<close>

record env =
  serialReady :: bool
  begin0 :: bool
  begin1 :: bool
  begin2 :: bool
  begin3 :: bool
  begin4 :: bool
  begin5 :: bool
  tc0 :: MAX31855_answers
  tc1 :: MAX31855_answers
  tc2 :: MAX31855_answers
  tc3 :: MAX31855_answers
  tc4 :: MAX31856_answers
  tc5 :: MAX31856_answers

text \<open>
  Where the program is: in \<^verbatim>\<open>setup()\<close>, between two calls of \<^verbatim>\<open>loop()\<close>, or in one of
  the two \<^verbatim>\<open>while (1) delay(10);\<close> of \<^verbatim>\<open>setup()\<close>.
\<close>

datatype phase = INITIALIZING | RUNNING | HALTED

record system =
  pc :: phase
  statusLED :: "32 word"
  calls :: "call list"

section \<open>The sketch\<close>

text \<open>\<^verbatim>\<open>setStatusLED\<close>, lines 333--336.\<close>

definition setStatusLED :: "32 word \<Rightarrow> system \<Rightarrow> system" where
  "setStatusLED color s = s\<lparr>statusLED := color, calls := calls s @ [SetPixelColor color]\<rparr>"

definition delay :: "nat \<Rightarrow> system \<Rightarrow> system" where
  "delay ms s = s\<lparr>calls := calls s @ [Delay ms]\<rparr>"

text \<open>
  The counting block of \<^verbatim>\<open>readMAX31855\<close>, lines 235--248: \<^verbatim>\<open>int faultCount = 0\<close> and one
  increment for each macro whose bit is set in \<^verbatim>\<open>fault\<close>.
\<close>

definition faultCount55 :: "8 word \<Rightarrow> int" where
  "faultCount55 fault =
    (let faultCount = 0;
         faultCount = (if fault AND MAX31855_FAULT_OPEN \<noteq> 0 then faultCount + 1 else faultCount);
         faultCount = (if fault AND MAX31855_FAULT_SHORT_GND \<noteq> 0 then faultCount + 1 else faultCount);
         faultCount = (if fault AND MAX31855_FAULT_SHORT_VCC \<noteq> 0 then faultCount + 1 else faultCount)
     in faultCount)"

text \<open>
  \<^verbatim>\<open>readMAX31855\<close>, lines 222--261. The reference parameter \<^verbatim>\<open>criticalError\<close> is passed
  in and returned; the result is \<^verbatim>\<open>(hasFault, criticalError, calls made)\<close>.
\<close>

definition readMAX31855 :: "MAX31855_answers \<Rightarrow> nat \<Rightarrow> bool \<Rightarrow> bool \<times> bool \<times> call list" where
  "readMAX31855 tc channel criticalError =
    (let hasFault = False;
         tempC = readCelsius tc
     in if isnan tempC then
          let hasFault = True;
              fault = readError tc;
              faultCount = faultCount55 fault;
              criticalError = (if faultCount > 1 then True else criticalError)
          in (hasFault, criticalError, [ReadCelsius channel, ReadError channel])
        else (hasFault, criticalError, [ReadCelsius channel]))"

text \<open>The counting block of \<^verbatim>\<open>readMAX31856\<close>, lines 279--312.\<close>

definition faultCount56 :: "8 word \<Rightarrow> int" where
  "faultCount56 fault =
    (let faultCount = 0;
         faultCount = (if fault AND MAX31856_FAULT_OPEN \<noteq> 0 then faultCount + 1 else faultCount);
         faultCount = (if fault AND MAX31856_FAULT_OVUV \<noteq> 0 then faultCount + 1 else faultCount);
         faultCount = (if fault AND MAX31856_FAULT_TCLOW \<noteq> 0 then faultCount + 1 else faultCount);
         faultCount = (if fault AND MAX31856_FAULT_TCHIGH \<noteq> 0 then faultCount + 1 else faultCount);
         faultCount = (if fault AND MAX31856_FAULT_CJLOW \<noteq> 0 then faultCount + 1 else faultCount);
         faultCount = (if fault AND MAX31856_FAULT_CJHIGH \<noteq> 0 then faultCount + 1 else faultCount);
         faultCount = (if fault AND MAX31856_FAULT_TCRANGE \<noteq> 0 then faultCount + 1 else faultCount);
         faultCount = (if fault AND MAX31856_FAULT_CJRANGE \<noteq> 0 then faultCount + 1 else faultCount)
     in faultCount)"

text \<open>\<^verbatim>\<open>readMAX31856\<close>, lines 263--330, with the same conventions.\<close>

definition readMAX31856 :: "MAX31856_answers \<Rightarrow> nat \<Rightarrow> bool \<Rightarrow> bool \<times> bool \<times> call list" where
  "readMAX31856 tc channel criticalError =
    (let hasFault = False;
         fault = readFault tc
     in if fault \<noteq> 0 then
          let hasFault = True;
              faultCount = faultCount56 fault;
              criticalError = (if faultCount > 2 \<or> fault = 0xFF then True else criticalError)
          in (hasFault, criticalError, [ReadFault channel])
        else (hasFault, criticalError, [ReadFault channel, ReadThermocoupleTemperature channel]))"

text \<open>
  The same reader with the all-flags test left out of the condition at line 318: the
  variant the sketch is compared with.
\<close>

definition readMAX31856_count_only :: "MAX31856_answers \<Rightarrow> nat \<Rightarrow> bool \<Rightarrow> bool \<times> bool \<times> call list" where
  "readMAX31856_count_only tc channel criticalError =
    (let hasFault = False;
         fault = readFault tc
     in if fault \<noteq> 0 then
          let hasFault = True;
              faultCount = faultCount56 fault;
              criticalError = (if faultCount > 2 then True else criticalError)
          in (hasFault, criticalError, [ReadFault channel])
        else (hasFault, criticalError, [ReadFault channel, ReadThermocoupleTemperature channel]))"

text \<open>\<^verbatim>\<open>initMAX31855Sensors\<close>, lines 160--192: all four \<^verbatim>\<open>begin()\<close> are always called.\<close>

definition initMAX31855Sensors :: "env \<Rightarrow> bool \<times> call list" where
  "initMAX31855Sensors e =
    (let allOK = True;
         allOK = (if \<not> begin0 e then False else allOK);
         allOK = (if \<not> begin1 e then False else allOK);
         allOK = (if \<not> begin2 e then False else allOK);
         allOK = (if \<not> begin3 e then False else allOK)
     in (allOK, [Begin 0, Begin 1, Begin 2, Begin 3]))"

text \<open>
  \<^verbatim>\<open>initMAX31856Sensors\<close>, lines 194--216: a sensor that came up is configured right
  away.
\<close>

definition initMAX31856Sensors :: "env \<Rightarrow> bool \<times> call list" where
  "initMAX31856Sensors e =
    (let allOK = True;
         (allOK, c4) = (if \<not> begin4 e then (False, [Begin 4])
                        else (allOK, [Begin 4, SetThermocoupleType 4, SetConversionMode 4]));
         (allOK, c5) = (if \<not> begin5 e then (False, [Begin 5])
                        else (allOK, [Begin 5, SetThermocoupleType 5, SetConversionMode 5]))
     in (allOK, c4 @ c5))"

text \<open>
  \<^verbatim>\<open>setup\<close>, lines 82--118, one step at a time. While \<^verbatim>\<open>Serial\<close> is not up the program
  sits in \<^verbatim>\<open>while (!Serial) delay(1);\<close>. Once it is up the rest of \<^verbatim>\<open>setup\<close> runs: it
  ends either at line 118, after which the Arduino core calls \<^verbatim>\<open>loop()\<close> forever, or in
  one of the two endless \<^verbatim>\<open>while (1) delay(10);\<close>.
\<close>

definition setup_sketch :: "env \<Rightarrow> system \<Rightarrow> system" where
  "setup_sketch e s =
    (if \<not> serialReady e then delay 1 s
     else
       let s = setStatusLED COLOR_INIT s;
           s = delay 500 s;
           (ok55, c55) = initMAX31855Sensors e;
           s = s\<lparr>calls := calls s @ c55\<rparr>
       in if \<not> ok55 then (setStatusLED COLOR_ERROR s)\<lparr>pc := HALTED\<rparr>
          else
            let (ok56, c56) = initMAX31856Sensors e;
                s = s\<lparr>calls := calls s @ c56\<rparr>
            in if \<not> ok56 then (setStatusLED COLOR_ERROR s)\<lparr>pc := HALTED\<rparr>
               else (setStatusLED COLOR_OK s)\<lparr>pc := RUNNING\<rparr>)"

text \<open>
  Lines 125--140 of \<^verbatim>\<open>loop\<close>: the six reads, in order, accumulating \<^verbatim>\<open>anyFaults\<close> with
  \<^verbatim>\<open>|=\<close> and \<^verbatim>\<open>criticalError\<close> through the reference parameter. The result is
  \<^verbatim>\<open>(anyFaults, criticalError, calls made)\<close>.
\<close>

definition loop_reads :: "env \<Rightarrow> bool \<times> bool \<times> call list" where
  "loop_reads e =
    (let anyFaults = False;
         criticalError = False;
         (h, criticalError, c0) = readMAX31855 (tc0 e) 0 criticalError;
         anyFaults = (anyFaults \<or> h);
         (h, criticalError, c1) = readMAX31855 (tc1 e) 1 criticalError;
         anyFaults = (anyFaults \<or> h);
         (h, criticalError, c2) = readMAX31855 (tc2 e) 2 criticalError;
         anyFaults = (anyFaults \<or> h);
         (h, criticalError, c3) = readMAX31855 (tc3 e) 3 criticalError;
         anyFaults = (anyFaults \<or> h);
         (h, criticalError, c4) = readMAX31856 (tc4 e) 4 criticalError;
         anyFaults = (anyFaults \<or> h);
         (h, criticalError, c5) = readMAX31856 (tc5 e) 5 criticalError;
         anyFaults = (anyFaults \<or> h)
     in (anyFaults, criticalError, c0 @ c1 @ c2 @ c3 @ c4 @ c5))"

text \<open>\<^verbatim>\<open>loop\<close>, lines 124--154: the reads, then the colour by priority, then the pause.\<close>

definition loop :: "env \<Rightarrow> system \<Rightarrow> system" where
  "loop e s =
    (let (anyFaults, criticalError, cs) = loop_reads e;
         s = s\<lparr>calls := calls s @ cs\<rparr>;
         s = (if criticalError then setStatusLED COLOR_ERROR s
              else if anyFaults then setStatusLED COLOR_WARNING s
              else setStatusLED COLOR_OK s)
     in delay 1000 s)"

text \<open>
  One step of the whole program: a pass through \<^verbatim>\<open>setup\<close>, one call of \<^verbatim>\<open>loop\<close>, or one
  turn of \<^verbatim>\<open>while (1) delay(10);\<close>, from which nothing leads out.
\<close>

definition step :: "env \<Rightarrow> system \<Rightarrow> system" where
  "step e s =
    (case pc s of
       INITIALIZING \<Rightarrow> setup_sketch e s
     | RUNNING \<Rightarrow> loop e s
     | HALTED \<Rightarrow> delay 10 s)"

fun run :: "env list \<Rightarrow> system \<Rightarrow> system" where
  "run [] s = s"
| "run (e # es) s = run es (step e s)"

text \<open>The program at power-up: in \<^verbatim>\<open>setup\<close>, the pixel dark, nothing called yet.\<close>

definition power_up :: system where
  "power_up = \<lparr>pc = INITIALIZING, statusLED = COLOR_OFF, calls = []\<rparr>"

section \<open>Verdicts, named flags and observations\<close>

text \<open>
  The verdict of one channel in one poll: what its reader returns as \<^verbatim>\<open>hasFault\<close>, and
  whether it raises \<^verbatim>\<open>criticalError\<close> when entered with \<^verbatim>\<open>criticalError = false\<close>, as
  the first reader of a cycle is.
\<close>

record ChannelVerdict =
  hasFault :: bool
  isCritical :: bool

definition verdict55 :: "MAX31855_answers \<Rightarrow> ChannelVerdict" where
  "verdict55 tc = (let (h, c, _) = readMAX31855 tc 0 False in \<lparr>hasFault = h, isCritical = c\<rparr>)"

definition verdict56 :: "MAX31856_answers \<Rightarrow> ChannelVerdict" where
  "verdict56 tc = (let (h, c, _) = readMAX31856 tc 0 False in \<lparr>hasFault = h, isCritical = c\<rparr>)"

text \<open>The six verdicts of one cycle, in polling order.\<close>

definition channelVerdicts :: "env \<Rightarrow> ChannelVerdict list" where
  "channelVerdicts e =
    [verdict55 (tc0 e), verdict55 (tc1 e), verdict55 (tc2 e), verdict55 (tc3 e),
     verdict56 (tc4 e), verdict56 (tc5 e)]"

text \<open>
  The named flags of each sensor family, and how many of a list of flags are set in a
  fault bitmask. This is the count the properties speak of; \<open>faultCount55\<close> and
  \<open>faultCount56\<close> above are the counts the sketch computes.
\<close>

definition MAX31855_flags :: "8 word list" where
  "MAX31855_flags = [MAX31855_FAULT_OPEN, MAX31855_FAULT_SHORT_GND, MAX31855_FAULT_SHORT_VCC]"

definition MAX31856_flags :: "8 word list" where
  "MAX31856_flags =
    [MAX31856_FAULT_OPEN, MAX31856_FAULT_OVUV, MAX31856_FAULT_TCLOW, MAX31856_FAULT_TCHIGH,
     MAX31856_FAULT_CJLOW, MAX31856_FAULT_CJHIGH, MAX31856_FAULT_TCRANGE, MAX31856_FAULT_CJRANGE]"

definition flags_set :: "8 word list \<Rightarrow> 8 word \<Rightarrow> nat" where
  "flags_set named fault = length (filter (\<lambda>m. fault AND m \<noteq> 0) named)"

text \<open>A call that reads a sensor, of either kind.\<close>

fun is_read :: "call \<Rightarrow> bool" where
  "is_read (ReadCelsius _) = True"
| "is_read (ReadError _) = True"
| "is_read (ReadFault _) = True"
| "is_read (ReadThermocoupleTemperature _) = True"
| "is_read _ = False"

text \<open>
  The channels polled in a sequence of calls, in order: a channel is polled by the first
  read its reader makes, \<^verbatim>\<open>readCelsius\<close> for a MAX31855 and \<^verbatim>\<open>readFault\<close> for a MAX31856.
\<close>

fun polled :: "call list \<Rightarrow> nat list" where
  "polled [] = []"
| "polled (ReadCelsius n # cs) = n # polled cs"
| "polled (ReadFault n # cs) = n # polled cs"
| "polled (_ # cs) = polled cs"

subsection \<open>Example answers\<close>

text \<open>A thermocouple in the freezer, an open one, and two wiring faults on a MAX31855.\<close>

definition freezer_A :: MAX31855_answers where
  "freezer_A = \<lparr>readCelsius = Num (-18), readError = 0\<rparr>"

definition open_A :: MAX31855_answers where
  "open_A = \<lparr>readCelsius = NaN, readError = 0x01\<rparr>"

definition shorted_A :: MAX31855_answers where
  "shorted_A = \<lparr>readCelsius = NaN, readError = 0x06\<rparr>"

definition stray_A :: MAX31855_answers where
  "stray_A = \<lparr>readCelsius = NaN, readError = 0xF8\<rparr>"

text \<open>The same on a MAX31856: in the freezer, open (\<^verbatim>\<open>0x41\<close>), bus fault (\<^verbatim>\<open>0xFF\<close>).\<close>

definition freezer_B :: MAX31856_answers where
  "freezer_B = \<lparr>readFault = 0, readThermocoupleTemperature = Num (-18)\<rparr>"

definition open_B :: MAX31856_answers where
  "open_B = \<lparr>readFault = 0x41, readThermocoupleTemperature = NaN\<rparr>"

definition bus_B :: MAX31856_answers where
  "bus_B = \<lparr>readFault = 0xFF, readThermocoupleTemperature = NaN\<rparr>"

definition env_ok :: env where
  "env_ok =
    \<lparr>serialReady = True, begin0 = True, begin1 = True, begin2 = True, begin3 = True,
     begin4 = True, begin5 = True, tc0 = freezer_A, tc1 = freezer_A, tc2 = freezer_A,
     tc3 = freezer_A, tc4 = freezer_B, tc5 = freezer_B\<rparr>"

definition env_open0 :: env where
  "env_open0 = env_ok\<lparr>tc0 := open_A\<rparr>"

definition env_open5 :: env where
  "env_open5 = env_ok\<lparr>tc5 := open_B\<rparr>"

definition env_bus :: env where
  "env_bus = env_ok\<lparr>tc1 := open_A, tc4 := bus_B\<rparr>"

definition env_fail_A :: env where
  "env_fail_A = env_ok\<lparr>begin2 := False\<rparr>"

definition env_fail_B :: env where
  "env_fail_B = env_ok\<lparr>begin5 := False\<rparr>"

lemmas flag_defs = flags_set_def MAX31855_flags_def MAX31856_flags_def
  MAX31855_FAULT_OPEN_def MAX31855_FAULT_SHORT_GND_def MAX31855_FAULT_SHORT_VCC_def
  MAX31856_FAULT_OPEN_def MAX31856_FAULT_OVUV_def MAX31856_FAULT_TCLOW_def
  MAX31856_FAULT_TCHIGH_def MAX31856_FAULT_CJLOW_def MAX31856_FAULT_CJHIGH_def
  MAX31856_FAULT_TCRANGE_def MAX31856_FAULT_CJRANGE_def

section \<open>The counting blocks\<close>

text \<open>The sketch's sequential count is the number of named flags set in the bitmask.\<close>

lemma faultCount55_flags: "faultCount55 fault = int (flags_set MAX31855_flags fault)"
  by (simp add: faultCount55_def flags_set_def MAX31855_flags_def Let_def)

lemma faultCount56_flags: "faultCount56 fault = int (flags_set MAX31856_flags fault)"
  by (simp add: faultCount56_def flags_set_def MAX31856_flags_def Let_def)

text \<open>Each named flag is one bit, so the count is the number of those bits that are set.\<close>

lemma flag_bit: "n < 8 \<Longrightarrow> (fault AND (2 ^ n :: 8 word) \<noteq> 0) = bit fault n"
  by (simp add: and_exp_eq_0_iff_not_bit)

lemma flag_bits:
  "(fault AND (0x01 :: 8 word) \<noteq> 0) = bit fault 0"
  "(fault AND (0x02 :: 8 word) \<noteq> 0) = bit fault 1"
  "(fault AND (0x04 :: 8 word) \<noteq> 0) = bit fault 2"
  "(fault AND (0x08 :: 8 word) \<noteq> 0) = bit fault 3"
  "(fault AND (0x10 :: 8 word) \<noteq> 0) = bit fault 4"
  "(fault AND (0x20 :: 8 word) \<noteq> 0) = bit fault 5"
  "(fault AND (0x40 :: 8 word) \<noteq> 0) = bit fault 6"
  "(fault AND (0x80 :: 8 word) \<noteq> 0) = bit fault 7"
  using flag_bit [of 0 fault] flag_bit [of 1 fault] flag_bit [of 2 fault] flag_bit [of 3 fault]
    flag_bit [of 4 fault] flag_bit [of 5 fault] flag_bit [of 6 fault] flag_bit [of 7 fault]
  by simp_all

lemma upt8: "[0..<8] = [0, 1, 2, 3, 4, 5, 6, 7]"
  by (simp add: upt_rec)

lemma upt3: "[0..<3] = [0, 1, 2]"
  by (simp add: upt_rec)

lemma flags55_bits: "flags_set MAX31855_flags fault = length (filter (bit fault) [0..<3])"
  by (simp add: flag_defs upt3 flag_bits)

lemma flags56_bits: "flags_set MAX31856_flags fault = length (filter (bit fault) [0..<8])"
  by (simp add: flag_defs upt8 flag_bits)

lemma faultCount55_low_bits: "faultCount55 (fault AND 0x07) = faultCount55 fault"
  by (simp add: faultCount55_def MAX31855_FAULT_OPEN_def MAX31855_FAULT_SHORT_GND_def
      MAX31855_FAULT_SHORT_VCC_def and.assoc)

lemma flags_set_zero: "flags_set named 0 = 0"
  by (simp add: flags_set_def)

lemma flags56_FF: "flags_set MAX31856_flags 0xFF = 8"
  by (simp add: flag_defs)

lemma flags56_41: "flags_set MAX31856_flags 0x41 = 2"
  by (simp add: flag_defs)

section \<open>The readers\<close>

lemma readMAX31855_eq:
  "readMAX31855 tc channel c =
    (isnan (readCelsius tc),
     c \<or> isnan (readCelsius tc) \<and> 1 < flags_set MAX31855_flags (readError tc),
     if isnan (readCelsius tc) then [ReadCelsius channel, ReadError channel]
     else [ReadCelsius channel])"
  by (simp add: readMAX31855_def faultCount55_flags Let_def)

lemma readMAX31856_eq:
  "readMAX31856 tc channel c =
    (readFault tc \<noteq> 0,
     c \<or> 2 < flags_set MAX31856_flags (readFault tc) \<or> readFault tc = 0xFF,
     if readFault tc \<noteq> 0 then [ReadFault channel]
     else [ReadFault channel, ReadThermocoupleTemperature channel])"
  by (auto simp add: readMAX31856_def faultCount56_flags Let_def flags_set_zero)

lemma verdict55_eq:
  "verdict55 tc =
    \<lparr>hasFault = isnan (readCelsius tc),
     isCritical = (isnan (readCelsius tc) \<and> 1 < flags_set MAX31855_flags (readError tc))\<rparr>"
  by (simp add: verdict55_def readMAX31855_eq)

lemma verdict56_eq:
  "verdict56 tc =
    \<lparr>hasFault = (readFault tc \<noteq> 0),
     isCritical = (2 < flags_set MAX31856_flags (readFault tc) \<or> readFault tc = 0xFF)\<rparr>"
  by (simp add: verdict56_def readMAX31856_eq)

text \<open>
  A reader returns its channel's \<^verbatim>\<open>hasFault\<close> and ORs its channel's criticality into the
  flag it was handed, whatever the channel number and whatever the flag was.
\<close>

lemma readMAX31855_verdict:
  "readMAX31855 tc channel c =
     (hasFault (verdict55 tc), c \<or> isCritical (verdict55 tc), snd (snd (readMAX31855 tc channel c)))"
  by (simp add: verdict55_eq readMAX31855_eq)

lemma readMAX31856_verdict:
  "readMAX31856 tc channel c =
     (hasFault (verdict56 tc), c \<or> isCritical (verdict56 tc), snd (snd (readMAX31856 tc channel c)))"
  by (simp add: verdict56_eq readMAX31856_eq)

lemma critical_has_fault55: "isCritical (verdict55 tc) \<Longrightarrow> hasFault (verdict55 tc)"
  by (simp add: verdict55_eq)

lemma critical_has_fault56: "isCritical (verdict56 tc) \<Longrightarrow> hasFault (verdict56 tc)"
  by (auto simp add: verdict56_eq flags_set_zero)

lemma critical_has_fault: "v \<in> set (channelVerdicts e) \<Longrightarrow> isCritical v \<Longrightarrow> hasFault v"
  by (auto simp add: channelVerdicts_def critical_has_fault55 critical_has_fault56)

section \<open>One cycle\<close>

lemma loop_reads_flags:
  "fst (loop_reads e) = (\<exists>v \<in> set (channelVerdicts e). hasFault v)"
  "fst (snd (loop_reads e)) = (\<exists>v \<in> set (channelVerdicts e). isCritical v)"
  unfolding loop_reads_def channelVerdicts_def
  by (subst readMAX31855_verdict readMAX31856_verdict, simp add: Let_def split_def)+

lemma loop_statusLED:
  "statusLED (loop e s) =
    (if fst (snd (loop_reads e)) then COLOR_ERROR
     else if fst (loop_reads e) then COLOR_WARNING else COLOR_OK)"
  by (simp add: loop_def setStatusLED_def delay_def split_def Let_def)

lemma colors_distinct:
  "COLOR_ERROR \<noteq> COLOR_WARNING" "COLOR_ERROR \<noteq> COLOR_OK" "COLOR_WARNING \<noteq> COLOR_OK"
  "COLOR_WARNING \<noteq> COLOR_ERROR" "COLOR_OK \<noteq> COLOR_ERROR" "COLOR_OK \<noteq> COLOR_WARNING"
  by (simp_all add: COLOR_ERROR_def COLOR_WARNING_def COLOR_OK_def)

lemma loop_pc: "pc (loop e s) = pc s"
  by (simp add: loop_def setStatusLED_def delay_def split_def Let_def)

lemma loop_calls:
  "calls (loop e s) =
     calls s @ snd (snd (loop_reads e)) @ [SetPixelColor (statusLED (loop e s)), Delay 1000]"
  by (simp add: loop_def setStatusLED_def delay_def split_def Let_def)

lemma polled_append: "polled (cs @ ds) = polled cs @ polled ds"
  by (induction cs rule: polled.induct) simp_all

lemma polled_readMAX31855: "polled (snd (snd (readMAX31855 tc channel c))) = [channel]"
  by (simp add: readMAX31855_eq)

lemma polled_readMAX31856: "polled (snd (snd (readMAX31856 tc channel c))) = [channel]"
  by (simp add: readMAX31856_eq)

lemma polled_loop_reads: "polled (snd (snd (loop_reads e))) = [0, 1, 2, 3, 4, 5]"
  by (simp add: loop_reads_def split_def Let_def polled_append polled_readMAX31855
      polled_readMAX31856)

lemma polled_loop: "polled (calls (loop e s)) = polled (calls s) @ [0, 1, 2, 3, 4, 5]"
  by (simp add: loop_calls polled_append polled_loop_reads)

section \<open>Runs of the program\<close>

lemma run_running:
  "pc s = RUNNING \<Longrightarrow>
     pc (run es s) = RUNNING \<and>
     polled (calls (run es s)) =
       polled (calls s) @ concat (replicate (length es) [0, 1, 2, 3, 4, 5])"
proof (induction es arbitrary: s)
  case Nil
  then show ?case by simp
next
  case (Cons e es)
  have st: "step e s = loop e s"
    using Cons.prems by (simp add: step_def)
  have "pc (step e s) = RUNNING"
    using Cons.prems by (simp add: st loop_pc)
  from Cons.IH [OF this] show ?case
    by (simp add: st polled_loop)
qed

lemma run_halted:
  "pc s = HALTED \<Longrightarrow> run es s = s\<lparr>calls := calls s @ replicate (length es) (Delay 10)\<rparr>"
proof (induction es arbitrary: s)
  case Nil
  then show ?case by simp
next
  case (Cons e es)
  have st: "step e s = delay 10 s"
    using Cons.prems by (simp add: step_def)
  have "pc (step e s) = HALTED"
    using Cons.prems by (simp add: st delay_def)
  from Cons.IH [OF this] show ?case
    by (simp add: st delay_def replicate_append_same)
qed

lemma initMAX31855Sensors_eq:
  "initMAX31855Sensors e =
     (begin0 e \<and> begin1 e \<and> begin2 e \<and> begin3 e, [Begin 0, Begin 1, Begin 2, Begin 3])"
  by (simp add: initMAX31855Sensors_def Let_def)

lemma initMAX31856Sensors_ok: "fst (initMAX31856Sensors e) = (begin4 e \<and> begin5 e)"
  by (simp add: initMAX31856Sensors_def Let_def split_def)

lemma initMAX31856Sensors_calls: "filter is_read (snd (initMAX31856Sensors e)) = []"
  by (simp add: initMAX31856Sensors_def Let_def split_def)

lemma setup_failure:
  assumes "serialReady e"
    and "\<not> (begin0 e \<and> begin1 e \<and> begin2 e \<and> begin3 e \<and> begin4 e \<and> begin5 e)"
  shows "pc (setup_sketch e s) = HALTED" "statusLED (setup_sketch e s) = COLOR_ERROR"
    "last (calls (setup_sketch e s)) = SetPixelColor COLOR_ERROR"
    "filter is_read (calls (setup_sketch e s)) = filter is_read (calls s)"
  using assms
  by (auto simp add: setup_sketch_def initMAX31855Sensors_eq initMAX31856Sensors_ok
      initMAX31856Sensors_calls setStatusLED_def delay_def split_def Let_def)

section \<open>The aggregated health of a cycle\<close>

text \<open>
  C1. In every cycle, whatever the state before it, \<^verbatim>\<open>loop\<close> leaves the indicator at
  \<^verbatim>\<open>0xFF0000\<close> exactly when at least one of the six channel verdicts is critical, at
  \<^verbatim>\<open>0xFFFF00\<close> exactly when none is critical and at least one has a fault, and at
  \<^verbatim>\<open>0x00FF00\<close> exactly when no channel has a fault.
\<close>

theorem loop_indicator_by_priority:
  "(statusLED (loop e s) = COLOR_ERROR) = (\<exists>v \<in> set (channelVerdicts e). isCritical v) \<and>
   (statusLED (loop e s) = COLOR_WARNING) =
     ((\<forall>v \<in> set (channelVerdicts e). \<not> isCritical v) \<and>
      (\<exists>v \<in> set (channelVerdicts e). hasFault v)) \<and>
   (statusLED (loop e s) = COLOR_OK) = (\<forall>v \<in> set (channelVerdicts e). \<not> hasFault v) \<and>
   COLOR_ERROR = 0xFF0000 \<and> COLOR_WARNING = 0xFFFF00 \<and> COLOR_OK = 0x00FF00"
proof -
  let ?crit = "\<exists>v \<in> set (channelVerdicts e). isCritical v"
  let ?fault = "\<exists>v \<in> set (channelVerdicts e). hasFault v"
  have led: "statusLED (loop e s) =
      (if ?crit then COLOR_ERROR else if ?fault then COLOR_WARNING else COLOR_OK)"
    by (simp only: loop_statusLED loop_reads_flags)
  have imp: "?crit \<Longrightarrow> ?fault"
    using critical_has_fault by blast
  have cols: "COLOR_ERROR = 0xFF0000 \<and> COLOR_WARNING = 0xFFFF00 \<and> COLOR_OK = 0x00FF00"
    by (simp add: COLOR_ERROR_def COLOR_WARNING_def COLOR_OK_def)
  have "(statusLED (loop e s) = COLOR_ERROR) = ?crit"
    by (simp add: led colors_distinct)
  moreover have "(statusLED (loop e s) = COLOR_WARNING) = (\<not> ?crit \<and> ?fault)"
    by (simp add: led colors_distinct)
  moreover have "(statusLED (loop e s) = COLOR_OK) = (\<not> ?fault)"
    using imp by (auto simp add: led colors_distinct)
  ultimately show ?thesis
    using cols by simp
qed

theorem loop_indicator_by_priority_witness:
  "statusLED (loop env_ok power_up) = COLOR_OK \<and>
   statusLED (loop env_open0 power_up) = COLOR_WARNING \<and>
   statusLED (loop env_bus power_up) = COLOR_ERROR"
  using loop_indicator_by_priority [of env_ok power_up]
    loop_indicator_by_priority [of env_open0 power_up]
    loop_indicator_by_priority [of env_bus power_up]
  by (simp add: channelVerdicts_def verdict55_eq verdict56_eq flag_defs env_ok_def env_open0_def
      env_bus_def freezer_A_def freezer_B_def open_A_def bus_B_def)

text \<open>
  C7. The aggregation does not depend on which channel carries which verdict: two cycles
  whose six verdicts are permutations of each other (equal as multisets) end with the
  same \<^verbatim>\<open>anyFaults\<close>, the same \<^verbatim>\<open>criticalError\<close> and the same indicator colour. The
  two flags are the logical OR of \<^verbatim>\<open>hasFault\<close> and of \<^verbatim>\<open>isCritical\<close> over the six
  channels.
\<close>

theorem aggregation_permutation_invariant:
  assumes "mset (channelVerdicts e1) = mset (channelVerdicts e2)"
  shows "fst (loop_reads e1) = fst (loop_reads e2) \<and>
         fst (snd (loop_reads e1)) = fst (snd (loop_reads e2)) \<and>
         statusLED (loop e1 s1) = statusLED (loop e2 s2) \<and>
         fst (loop_reads e1) = (\<exists>v \<in> set (channelVerdicts e1). hasFault v) \<and>
         fst (snd (loop_reads e1)) = (\<exists>v \<in> set (channelVerdicts e1). isCritical v)"
proof -
  from assms have "set (channelVerdicts e1) = set (channelVerdicts e2)"
    by (rule mset_eq_setD)
  then show ?thesis
    by (simp add: loop_statusLED loop_reads_flags)
qed

theorem aggregation_permutation_invariant_witness:
  "mset (channelVerdicts env_open0) = mset (channelVerdicts env_open5) \<and>
   channelVerdicts env_open0 \<noteq> channelVerdicts env_open5 \<and>
   statusLED (loop env_open0 power_up) = statusLED (loop env_open5 power_up)"
proof -
  have h: "mset (channelVerdicts env_open0) = mset (channelVerdicts env_open5)"
    by (simp add: channelVerdicts_def verdict55_eq verdict56_eq flag_defs env_ok_def
        env_open0_def env_open5_def freezer_A_def freezer_B_def open_A_def open_B_def)
  have d: "channelVerdicts env_open0 \<noteq> channelVerdicts env_open5"
    by (simp add: channelVerdicts_def verdict55_eq verdict56_eq flag_defs env_ok_def
        env_open0_def env_open5_def freezer_A_def freezer_B_def open_A_def open_B_def)
  show ?thesis
    using aggregation_permutation_invariant [OF h, of power_up power_up] h d by simp
qed

section \<open>The fault classifiers\<close>

text \<open>
  C2. For every MAX31856 fault bitmask, \<^verbatim>\<open>hasFault\<close> holds exactly when the bitmask is
  not zero, and the channel is critical exactly when more than two of the eight named
  flags are set or the bitmask is \<^verbatim>\<open>0xFF\<close>. Bitmask \<^verbatim>\<open>0x41\<close> is a fault that is not
  critical; bitmask \<^verbatim>\<open>0xFF\<close> is critical.
\<close>

theorem readMAX31856_verdict_policy:
  "hasFault (verdict56 tc) = (readFault tc \<noteq> 0) \<and>
   isCritical (verdict56 tc) =
     (2 < flags_set MAX31856_flags (readFault tc) \<or> readFault tc = 0xFF) \<and>
   verdict56 (tc\<lparr>readFault := 0x41\<rparr>) = \<lparr>hasFault = True, isCritical = False\<rparr> \<and>
   verdict56 (tc\<lparr>readFault := 0xFF\<rparr>) = \<lparr>hasFault = True, isCritical = True\<rparr>"
  by (simp add: verdict56_eq flags56_41 flags56_FF)

text \<open>
  C3. For every MAX31855 reading in the fault branch (the temperature is NaN),
  \<^verbatim>\<open>hasFault\<close> holds and the channel is critical exactly when more than one of the three
  named flags is set: with exactly one flag set it is not critical, with two or three
  it is.
\<close>

theorem readMAX31855_critical_iff_multiple_flags:
  assumes "isnan (readCelsius tc)"
  shows "hasFault (verdict55 tc) \<and>
         isCritical (verdict55 tc) = (1 < flags_set MAX31855_flags (readError tc)) \<and>
         (flags_set MAX31855_flags (readError tc) = 1 \<longrightarrow> \<not> isCritical (verdict55 tc)) \<and>
         (flags_set MAX31855_flags (readError tc) \<in> {2, 3} \<longrightarrow> isCritical (verdict55 tc))"
  using assms by (auto simp add: verdict55_eq)

theorem readMAX31855_critical_iff_multiple_flags_witness:
  "isnan (readCelsius open_A) \<and> flags_set MAX31855_flags (readError open_A) = 1 \<and>
   hasFault (verdict55 open_A) \<and> \<not> isCritical (verdict55 open_A) \<and>
   isnan (readCelsius shorted_A) \<and> flags_set MAX31855_flags (readError shorted_A) = 2 \<and>
   hasFault (verdict55 shorted_A) \<and> isCritical (verdict55 shorted_A)"
  using readMAX31855_critical_iff_multiple_flags [of open_A]
    readMAX31855_critical_iff_multiple_flags [of shorted_A]
  by (simp add: flag_defs open_A_def shorted_A_def)

text \<open>
  C4, as the sketch has it. The claim that \<^verbatim>\<open>hasFault\<close> holds exactly when the raw
  fault bitmask is not zero fails: a NaN temperature with a bitmask that reads zero is a
  fault.
\<close>

theorem readMAX31855_fault_with_zero_bitmask:
  "hasFault (verdict55 \<lparr>readCelsius = NaN, readError = 0\<rparr>) \<noteq>
     (readError \<lparr>readCelsius = NaN, readError = 0 :: 8 word\<rparr> \<noteq> 0)"
  by (simp add: verdict55_eq)

text \<open>
  C4, amended. For every MAX31855 reading, \<^verbatim>\<open>hasFault\<close> holds exactly when the
  temperature is NaN, whatever the raw fault bitmask reads; the bitmask is read only
  after a NaN temperature. In particular a NaN temperature is a fault for every value
  of the bitmask, zero included.
\<close>

theorem readMAX31855_hasFault_iff_nan:
  "hasFault (verdict55 tc) = isnan (readCelsius tc) \<and>
   fst (readMAX31855 tc channel c) = isnan (readCelsius tc) \<and>
   snd (snd (readMAX31855 tc channel c)) =
     (if isnan (readCelsius tc) then [ReadCelsius channel, ReadError channel]
      else [ReadCelsius channel]) \<and>
   hasFault (verdict55 \<lparr>readCelsius = NaN, readError = fault\<rparr>)"
  by (simp add: verdict55_eq readMAX31855_eq)

text \<open>
  C8. A verdict of either reader is critical only if it is a fault, so a cycle that ends
  with the indicator at \<^verbatim>\<open>COLOR_ERROR\<close> has at least one channel with \<^verbatim>\<open>hasFault\<close>.
\<close>

theorem critical_implies_fault:
  "(isCritical (verdict55 a) \<longrightarrow> hasFault (verdict55 a)) \<and>
   (isCritical (verdict56 b) \<longrightarrow> hasFault (verdict56 b)) \<and>
   (statusLED (loop e s) = COLOR_ERROR \<longrightarrow> (\<exists>v \<in> set (channelVerdicts e). hasFault v))"
proof -
  have "statusLED (loop e s) = COLOR_ERROR \<Longrightarrow> \<exists>v \<in> set (channelVerdicts e). isCritical v"
    by (simp add: loop_statusLED loop_reads_flags colors_distinct split: if_splits)
  then show ?thesis
    using critical_has_fault critical_has_fault55 critical_has_fault56 by blast
qed

theorem critical_implies_fault_witness:
  "isCritical (verdict55 shorted_A) \<and> hasFault (verdict55 shorted_A) \<and>
   isCritical (verdict56 bus_B) \<and> hasFault (verdict56 bus_B) \<and>
   statusLED (loop env_bus power_up) = COLOR_ERROR \<and>
   (\<exists>v \<in> set (channelVerdicts env_bus). hasFault v)"
proof -
  have a: "isCritical (verdict55 shorted_A)"
    by (simp add: verdict55_eq flag_defs shorted_A_def)
  have b: "isCritical (verdict56 bus_B)"
    by (simp add: verdict56_eq flag_defs bus_B_def)
  have l: "statusLED (loop env_bus power_up) = COLOR_ERROR"
    by (simp add: loop_statusLED loop_reads_flags channelVerdicts_def verdict55_eq verdict56_eq
        flag_defs env_ok_def env_bus_def freezer_A_def freezer_B_def open_A_def bus_B_def)
  show ?thesis
    using critical_implies_fault [of shorted_A bus_B env_bus power_up] a b l by simp
qed

text \<open>
  C9. The all-flags test at line 318 is redundant: for every answer of the sensor, every
  channel number and every incoming \<^verbatim>\<open>criticalError\<close>, the reader with the condition
  \<^verbatim>\<open>faultCount > 2\<close> alone returns what \<^verbatim>\<open>readMAX31856\<close> returns, because bitmask
  \<^verbatim>\<open>0xFF\<close> makes the count 8.
\<close>

theorem all_flags_test_redundant:
  "readMAX31856_count_only tc channel c = readMAX31856 tc channel c \<and>
   faultCount56 0xFF = 8"
proof (cases "readFault tc = 0xFF")
  case True
  have n: "faultCount56 0xFF = 8"
    by (simp add: faultCount56_flags flags56_FF)
  with True show ?thesis
    by (simp add: readMAX31856_count_only_def readMAX31856_def Let_def)
next
  case False
  have n: "faultCount56 0xFF = 8"
    by (simp add: faultCount56_flags flags56_FF)
  with False show ?thesis
    by (simp add: readMAX31856_count_only_def readMAX31856_def Let_def)
qed

text \<open>
  C10. A MAX31855 whose temperature reads NaN while none of the three named flags is set
  in the raw bitmask is a fault that is not critical, and it leaves an incoming
  \<^verbatim>\<open>criticalError\<close> as it was; the count is zero. Bitmask zero is such a reading. The
  count of any bitmask is the count of its three low bits.
\<close>

theorem readMAX31855_unnamed_bits_not_critical:
  assumes "isnan (readCelsius tc)"
    and "readError tc AND MAX31855_FAULT_OPEN = 0"
    and "readError tc AND MAX31855_FAULT_SHORT_GND = 0"
    and "readError tc AND MAX31855_FAULT_SHORT_VCC = 0"
  shows "verdict55 tc = \<lparr>hasFault = True, isCritical = False\<rparr> \<and>
         readMAX31855 tc channel c = (True, c, [ReadCelsius channel, ReadError channel]) \<and>
         faultCount55 (readError tc) = 0 \<and>
         verdict55 \<lparr>readCelsius = NaN, readError = 0\<rparr> = \<lparr>hasFault = True, isCritical = False\<rparr> \<and>
         faultCount55 fault = faultCount55 (fault AND 0x07)"
proof -
  from assms(2-4) have "flags_set MAX31855_flags (readError tc) = 0"
    by (simp add: flags_set_def MAX31855_flags_def)
  with assms(1) show ?thesis
    by (simp add: verdict55_eq readMAX31855_eq faultCount55_flags [of "readError tc"]
        flags_set_zero faultCount55_low_bits)
qed

theorem readMAX31855_unnamed_bits_not_critical_witness:
  "isnan (readCelsius stray_A) \<and> readError stray_A = 0xF8 \<and>
   readError stray_A AND MAX31855_FAULT_OPEN = 0 \<and>
   readError stray_A AND MAX31855_FAULT_SHORT_GND = 0 \<and>
   readError stray_A AND MAX31855_FAULT_SHORT_VCC = 0 \<and>
   verdict55 stray_A = \<lparr>hasFault = True, isCritical = False\<rparr> \<and>
   readMAX31855 stray_A 2 True = (True, True, [ReadCelsius 2, ReadError 2])"
proof -
  have n: "isnan (readCelsius stray_A)" "readError stray_A = 0xF8"
    by (simp_all add: stray_A_def)
  have z: "readError stray_A AND MAX31855_FAULT_OPEN = 0"
    "readError stray_A AND MAX31855_FAULT_SHORT_GND = 0"
    "readError stray_A AND MAX31855_FAULT_SHORT_VCC = 0"
    by (simp_all add: stray_A_def flag_defs)
  show ?thesis
    using readMAX31855_unnamed_bits_not_critical [OF n(1) z, of 2 True] n z by simp
qed

section \<open>Bring-up and polling over time\<close>

text \<open>
  C5. If \<^verbatim>\<open>setup\<close> gets past the wait for \<^verbatim>\<open>Serial\<close> and the \<^verbatim>\<open>begin()\<close> of any of the
  six channels fails, MAX31855 or MAX31856, then after that step and any number of
  further steps, whatever the sensors would answer, the program is halted, the indicator
  is at \<^verbatim>\<open>0xFF0000\<close> (its last colour command), every later call is \<^verbatim>\<open>delay(10)\<close>, and no
  sensor has been read since.
\<close>

theorem bringup_failure_halts_forever:
  assumes "pc s = INITIALIZING" and "serialReady e"
    and "\<not> (begin0 e \<and> begin1 e \<and> begin2 e \<and> begin3 e \<and> begin4 e \<and> begin5 e)"
  shows "pc (run (e # es) s) = HALTED \<and>
         statusLED (run (e # es) s) = COLOR_ERROR \<and>
         last (calls (step e s)) = SetPixelColor COLOR_ERROR \<and>
         calls (run (e # es) s) = calls (step e s) @ replicate (length es) (Delay 10) \<and>
         filter is_read (calls (run (e # es) s)) = filter is_read (calls s)"
proof -
  have st: "step e s = setup_sketch e s"
    using assms(1) by (simp add: step_def)
  note f = setup_failure [OF assms(2,3), of s]
  have r: "run es (setup_sketch e s) =
      (setup_sketch e s)\<lparr>calls := calls (setup_sketch e s) @ replicate (length es) (Delay 10)\<rparr>"
    by (rule run_halted [OF f(1)])
  show ?thesis
    by (simp add: r st f)
qed

theorem bringup_failure_halts_forever_witness:
  "pc power_up = INITIALIZING \<and> serialReady env_fail_A \<and> \<not> begin2 env_fail_A \<and>
   pc (run [env_fail_A, env_ok, env_bus] power_up) = HALTED \<and>
   statusLED (run [env_fail_A, env_ok, env_bus] power_up) = COLOR_ERROR \<and>
   filter is_read (calls (run [env_fail_A, env_ok, env_bus] power_up)) = [] \<and>
   serialReady env_fail_B \<and> \<not> begin5 env_fail_B \<and>
   pc (run [env_fail_B, env_ok] power_up) = HALTED \<and>
   statusLED (run [env_fail_B, env_ok] power_up) = COLOR_ERROR \<and>
   filter is_read (calls (run [env_fail_B, env_ok] power_up)) = []"
proof -
  have i: "pc power_up = INITIALIZING" "calls power_up = []"
    by (simp_all add: power_up_def)
  have a: "serialReady env_fail_A" "\<not> begin2 env_fail_A"
    by (simp_all add: env_fail_A_def env_ok_def)
  have b: "serialReady env_fail_B" "\<not> begin5 env_fail_B"
    by (simp_all add: env_fail_B_def env_ok_def)
  have fa: "\<not> (begin0 env_fail_A \<and> begin1 env_fail_A \<and> begin2 env_fail_A \<and>
      begin3 env_fail_A \<and> begin4 env_fail_A \<and> begin5 env_fail_A)"
    using a(2) by simp
  have fb: "\<not> (begin0 env_fail_B \<and> begin1 env_fail_B \<and> begin2 env_fail_B \<and>
      begin3 env_fail_B \<and> begin4 env_fail_B \<and> begin5 env_fail_B)"
    using b(2) by simp
  note A = bringup_failure_halts_forever [OF i(1) a(1) fa, of "[env_ok, env_bus]",
      unfolded i(2) filter.simps]
  note B = bringup_failure_halts_forever [OF i(1) b(1) fb, of "[env_ok]",
      unfolded i(2) filter.simps]
  show ?thesis
    using A B i(1) a b by blast
qed

text \<open>
  C6. Once the program is between calls of \<^verbatim>\<open>loop\<close>, it stays there for any number of
  cycles and any answers of the sensors, and each cycle polls the six channels in order.
  One cycle is one call of \<^verbatim>\<open>loop\<close>: it reads all six channels, sets the indicator to
  one of the three health colours, pauses for a second and is ready for the next cycle.
\<close>

theorem running_never_halts:
  assumes "pc s = RUNNING"
  shows "pc (run es s) = RUNNING \<and>
         polled (calls (run es s)) =
           polled (calls s) @ concat (replicate (length es) [0, 1, 2, 3, 4, 5]) \<and>
         step e s = loop e s \<and>
         pc (step e s) = RUNNING \<and>
         calls (step e s) =
           calls s @ snd (snd (loop_reads e)) @
             [SetPixelColor (statusLED (step e s)), Delay 1000] \<and>
         polled (snd (snd (loop_reads e))) = [0, 1, 2, 3, 4, 5] \<and>
         statusLED (step e s) \<in> {COLOR_OK, COLOR_WARNING, COLOR_ERROR}"
proof -
  have st: "step e s = loop e s"
    using assms by (simp add: step_def)
  have led: "statusLED (loop e s) \<in> {COLOR_OK, COLOR_WARNING, COLOR_ERROR}"
    by (simp add: loop_statusLED)
  show ?thesis
    using run_running [OF assms, of es] assms led
    by (simp add: st loop_pc polled_loop_reads loop_calls [symmetric])
qed

theorem running_never_halts_witness:
  "pc (setup_sketch env_ok power_up) = RUNNING \<and>
   pc (run [env_bus, env_open0] (setup_sketch env_ok power_up)) = RUNNING \<and>
   polled (calls (run [env_bus, env_open0] (setup_sketch env_ok power_up))) =
     [0, 1, 2, 3, 4, 5, 0, 1, 2, 3, 4, 5] \<and>
   statusLED (step env_bus (setup_sketch env_ok power_up)) = COLOR_ERROR"
proof -
  have r: "pc (setup_sketch env_ok power_up) = RUNNING"
    by (simp add: setup_sketch_def initMAX31855Sensors_eq initMAX31856Sensors_def
        setStatusLED_def delay_def power_up_def env_ok_def Let_def)
  have p: "polled (calls (setup_sketch env_ok power_up)) = []"
    by (simp add: setup_sketch_def initMAX31855Sensors_eq initMAX31856Sensors_def
        setStatusLED_def delay_def power_up_def env_ok_def Let_def)
  have l: "statusLED (loop env_bus (setup_sketch env_ok power_up)) = COLOR_ERROR"
    by (simp add: loop_statusLED loop_reads_flags channelVerdicts_def verdict55_eq verdict56_eq
        flag_defs env_ok_def env_bus_def freezer_A_def freezer_B_def open_A_def bus_B_def)
  show ?thesis
    using running_never_halts [OF r, of "[env_bus, env_open0]" env_bus] r p l
    by (simp del: run.simps)
qed

end
